theory Spec2Isabelle
  imports Complex_Main "HOL-Library.Sublist" "HOL-Library.Log_Nat"
begin

section \<open>JavaScript values and operators used by the components\<close>

text \<open>
  A JavaScript number is a double. A finite double is modelled by the rational it denotes,
  and every \<open>+\<close>, \<open>-\<close>, \<open>*\<close> and \<open>/\<close> of the components is the exact operation
  followed by \<open>fl\<close>, the rounding to the nearest double, a tie going to the even
  significand. Comparisons, \<open>Math.min\<close>, \<open>Math.max\<close>, \<open>Math.abs\<close> and
  \<open>Math.round\<close> are exact on doubles. Outside the model are \<open>NaN\<close> as an input, and
  magnitudes from \<open>2 ^ 1024\<close> on, where a double overflows to an infinity. A field that
  is \<open>undefined\<close> or \<open>null\<close> is \<open>None\<close>.
\<close>

text \<open>The nearest integer, a tie going to the even one.\<close>

definition round_half_even :: "rat \<Rightarrow> int" where
  "round_half_even y =
     (let f = \<lfloor>y\<rfloor>; r = y - of_int f
      in if r < 1 / 2 then f else if 1 / 2 < r then f + 1 else if even f then f else f + 1)"

text \<open>
  The binary exponent of a non-zero number: the \<open>e\<close> with \<open>2 powi e \<le> \<bar>x\<bar> < 2 powi (e + 1)\<close>,
  found from the bit lengths of numerator and denominator.
\<close>

definition binade :: "rat \<Rightarrow> int" where
  "binade x =
     (let (n, d) = quotient_of x; c = bitlen \<bar>n\<bar> - bitlen d
      in if 2 powi c \<le> \<bar>x\<bar> then c else c - 1)"

text \<open>
  Rounding to a double: 53 significant bits, so the spacing of the doubles around \<open>x\<close>
  is \<open>2 powi (e - 52)\<close>; below \<open>2 powi (- 1022)\<close> the spacing stays that of the smallest
  normal numbers (the subnormal range).
\<close>

definition fl :: "rat \<Rightarrow> rat" where
  "fl x =
     (if x = 0 then 0
      else let q = 2 powi (max (binade x) (- 1022) - 52)
           in q * of_int (round_half_even (x / q)))"

text \<open>\<open>Math.round\<close>: the nearest integer, a tie going up.\<close>

definition Math_round :: "rat \<Rightarrow> rat" where
  "Math_round x = of_int \<lfloor>x + 1 / 2\<rfloor>"

text \<open>\<open>x || d\<close> on a number that may be missing: \<open>undefined\<close>, \<open>null\<close> and \<open>0\<close> are falsy.\<close>

fun or_default :: "rat option \<Rightarrow> rat \<Rightarrow> rat" where
  "or_default None d = d"
| "or_default (Some x) d = (if x = 0 then d else x)"

text \<open>\<open>x ?? d\<close>: only \<open>undefined\<close> and \<open>null\<close> give the default.\<close>

fun nullish :: "rat option \<Rightarrow> rat \<Rightarrow> rat" where
  "nullish None d = d"
| "nullish (Some x) d = x"

text \<open>
  The employment type of a beneficiary arrives either as a number or as a textual label
  (the database column is an enum of labels), so this one field is a tagged value.
\<close>

datatype jsval = Undefined | Null | Num rat | Str string

text \<open>
  What a string converts to when it is compared with a number: a finite number, an
  infinity (the text \<open>Infinity\<close>, or a literal too large for a double) or \<open>NaN\<close> (a
  label).
\<close>

datatype converted = NaN | PosInf | NegInf | Finite rat

text \<open>
  Three things are the engine's own and are taken as parameters: the number a non-empty
  string converts to; the text of a whole number from \<open>2 ^ 53\<close> on, which is printed
  from the fewest digits that identify the double, and in exponent notation from
  \<open>10 ^ 21\<close> on; and the message of the \<open>TypeError\<close> thrown when a property of
  \<open>null\<close> is read.
\<close>

record js_engine =
  stringToNumber :: "string \<Rightarrow> converted"
  bigToString :: "int \<Rightarrow> string"
  nullReadMessage :: string

text \<open>\<open>ToNumber (v || 0)\<close>: the empty string is falsy, any other string is converted.\<close>

fun operand_or_zero :: "js_engine \<Rightarrow> jsval \<Rightarrow> converted" where
  "operand_or_zero js Undefined = Finite 0"
| "operand_or_zero js Null = Finite 0"
| "operand_or_zero js (Num r) = Finite r"
| "operand_or_zero js (Str s) = (if s = [] then Finite 0 else stringToNumber js s)"

text \<open>\<open>v > w\<close> and \<open>v < w\<close> for a number \<open>v\<close>: false as soon as \<open>w\<close> is \<open>NaN\<close>.\<close>

fun js_gt :: "rat \<Rightarrow> converted \<Rightarrow> bool" where
  "js_gt v NaN = False"
| "js_gt v PosInf = False"
| "js_gt v NegInf = True"
| "js_gt v (Finite w) = (w < v)"

fun js_lt :: "rat \<Rightarrow> converted \<Rightarrow> bool" where
  "js_lt v NaN = False"
| "js_lt v PosInf = True"
| "js_lt v NegInf = False"
| "js_lt v (Finite w) = (v < w)"

text \<open>The decimal digits of a non-negative integer, as a template string prints them.\<close>

function show_digits :: "int \<Rightarrow> string" where
  "show_digits i =
     (if i < 10 then [''0123456789'' ! nat i]
      else show_digits (i div 10) @ [''0123456789'' ! nat (i mod 10)])"
  by pat_completeness auto
termination
  by (relation "measure nat") auto

declare show_digits.simps [simp del]

definition show_nat :: "nat \<Rightarrow> string" where
  "show_nat n = show_digits (int n)"

definition show_int :: "int \<Rightarrow> string" where
  "show_int i = (if i < 0 then ''-'' @ show_digits (- i) else show_digits i)"

text \<open>
  The text of a whole number in a template string: all its digits while every whole
  number is a double.
\<close>

definition numberToString :: "js_engine \<Rightarrow> int \<Rightarrow> string" where
  "numberToString js i = (if \<bar>i\<bar> < 2 ^ 53 then show_int i else bigToString js i)"

text \<open>\<open>s.includes(pat)\<close>: \<open>pat\<close> occurs in \<open>s\<close> as a contiguous run.\<close>

fun str_includes :: "string \<Rightarrow> string \<Rightarrow> bool" where
  "str_includes [] pat = (pat = [])"
| "str_includes (c # cs) pat = (prefix pat (c # cs) \<or> str_includes cs pat)"


section \<open>The beneficiary's attributes\<close>

text \<open>
  The same eight attributes occur twice: as they arrive (a number that may be missing, and
  an employment type that may be a label), and as \<open>prepareDataForBackend\<close> sends them.
  The record is therefore generic in the type of a numeric field and of the employment
  type.
\<close>

record ('n, 'e) attributes =
  loan_repayment_status :: 'n
  loan_tenure_months :: 'n
  electricity_bill_paid_on_time :: 'n
  mobile_recharge_frequency :: 'n
  is_high_need :: 'n
  age :: 'n
  monthly_income :: 'n
  employment_type :: 'e

type_synonym beneficiary = "(rat option, jsval) attributes"

text \<open>An object none of whose attributes is set.\<close>

definition no_attributes :: beneficiary where
  "no_attributes =
     \<lparr>loan_repayment_status = None, loan_tenure_months = None,
      electricity_bill_paid_on_time = None, mobile_recharge_frequency = None,
      is_high_need = None, age = None, monthly_income = None,
      employment_type = Undefined\<rparr>"


section \<open>ScoreSimulator: the local simulation\<close>

text \<open>
  The hypothetical changes are an object from parameter names to numbers; it is the list
  of its entries in insertion order, which is the order \<open>Object.entries\<close> visits.
\<close>

type_synonym changes = "(string \<times> rat) list"

text \<open>
  One round of the \<open>forEach\<close> in \<open>simulateScoreLocally\<close>: the \<open>switch\<close> on the key,
  from the running \<open>scoreAdjustment\<close> to the new one.
\<close>

definition applyChange :: "js_engine \<Rightarrow> beneficiary \<Rightarrow> rat \<Rightarrow> string \<times> rat \<Rightarrow> rat" where
  "applyChange js current scoreAdjustment entry =
     (let key = fst entry; v = snd entry in
      if key = ''monthly_income'' then
        (let incomeChange = fl (fl (v - or_default (monthly_income current) 0) / 1000)
         in fl (scoreAdjustment + min (fl (incomeChange * 2)) 50))
      else if key = ''employment_type'' then
        (let a1 = (if js_gt v (operand_or_zero js (employment_type current))
                   then fl (scoreAdjustment + 25) else scoreAdjustment)
         in if js_lt v (operand_or_zero js (employment_type current)) then fl (a1 - 15) else a1)
      else if key = ''loan_repayment_status'' then
        (let a1 = (if v > or_default (loan_repayment_status current) 0
                   then fl (scoreAdjustment + 40) else scoreAdjustment)
         in if v < or_default (loan_repayment_status current) 0 then fl (a1 - 40) else a1)
      else if key = ''electricity_bill_paid_on_time'' then
        (let a1 = (if v > or_default (electricity_bill_paid_on_time current) 0
                   then fl (scoreAdjustment + 30) else scoreAdjustment)
         in if v < or_default (electricity_bill_paid_on_time current) 0 then fl (a1 - 30) else a1)
      else if key = ''mobile_recharge_frequency'' then
        (let a1 = (if v > or_default (mobile_recharge_frequency current) 0
                   then fl (scoreAdjustment + 15) else scoreAdjustment)
         in if v < or_default (mobile_recharge_frequency current) 0 then fl (a1 - 10) else a1)
      else if key = ''loan_tenure_months'' then
        (let tenureChange = fl (v - or_default (loan_tenure_months current) 12);
             a1 = (if tenureChange < 0 then fl (scoreAdjustment + 10) else scoreAdjustment)
         in if tenureChange > 0 then fl (a1 - 5) else a1)
      else scoreAdjustment)"

text \<open>The term of the income case, \<open>Math.min(incomeChange * 2, 50)\<close>, on its own.\<close>

definition incomeTerm :: "beneficiary \<Rightarrow> rat \<Rightarrow> rat" where
  "incomeTerm current v =
     (let incomeChange = fl (fl (v - or_default (monthly_income current) 0) / 1000)
      in min (fl (incomeChange * 2)) 50)"

definition scoreAdjustmentOf :: "js_engine \<Rightarrow> beneficiary \<Rightarrow> changes \<Rightarrow> rat" where
  "scoreAdjustmentOf js current chs = foldl (applyChange js current) 0 chs"

record sim_result =
  projected_score :: rat
  score_change :: rat
  explanation :: string

definition localExplanation :: "js_engine \<Rightarrow> rat \<Rightarrow> string" where
  "localExplanation js scoreAdjustment =
     ''Local simulation based on your changes: '' @
     (if scoreAdjustment > 0 then
        ''These improvements could increase your score by approximately '' @
        numberToString js \<lfloor>scoreAdjustment + 1 / 2\<rfloor> @ '' points. ''
      else if scoreAdjustment < 0 then
        ''These changes might decrease your score by approximately '' @
        numberToString js \<lfloor>\<bar>scoreAdjustment\<bar> + 1 / 2\<rfloor> @ '' points. ''
      else ''These changes would have minimal impact on your current score. '') @
     ''This is a simplified calculation. For more accurate projections, ensure the backend server is running.''"

definition simulateScoreLocally ::
  "js_engine \<Rightarrow> rat option \<Rightarrow> beneficiary \<Rightarrow> changes \<Rightarrow> sim_result" where
  "simulateScoreLocally js currentScore current chs =
     (let baseScore = or_default currentScore 650;
          scoreAdjustment = scoreAdjustmentOf js current chs;
          projectedScore = max 300 (min 850 (fl (baseScore + scoreAdjustment)))
      in \<lparr>projected_score = Math_round projectedScore,
          score_change = Math_round scoreAdjustment,
          explanation = localExplanation js scoreAdjustment\<rparr>)"


section \<open>ScoreSimulator: encoding the attributes for the backend\<close>

text \<open>
  What \<open>convertEmploymentType\<close> returns: a number, or, when the label happens to be
  the name of a member that every object inherits, that member (a function or an object,
  which is truthy, so \<open>||\<close> keeps it).
\<close>

datatype encoded = Enc rat | Inherited string

definition mapping :: "(string \<times> rat) list" where
  "mapping =
     [(''unemployed'', 0), (''self_employed'', 1), (''salaried'', 2), (''business_owner'', 3)]"

text \<open>
  The table is an object literal, so a lookup that misses its own keys goes on to
  \<open>Object.prototype\<close>. These are the names ECMAScript defines there.
\<close>

definition object_prototype_keys :: "string list" where
  "object_prototype_keys =
     [''constructor'', ''hasOwnProperty'', ''isPrototypeOf'', ''propertyIsEnumerable'',
      ''toLocaleString'', ''toString'', ''valueOf'', ''__proto__'',
      ''__defineGetter__'', ''__defineSetter__'', ''__lookupGetter__'', ''__lookupSetter__'']"

text \<open>\<open>mapping[key] || 0\<close>.\<close>

definition mapping_or_zero :: "string \<Rightarrow> encoded" where
  "mapping_or_zero key =
     (case map_of mapping key of
        Some n \<Rightarrow> (if n = 0 then Enc 0 else Enc n)
      | None \<Rightarrow> (if key \<in> set object_prototype_keys then Inherited key else Enc 0))"

text \<open>
  A number is returned as it is; anything else is used as a property key, \<open>undefined\<close>
  and \<open>null\<close> by their names.
\<close>

fun convertEmploymentType :: "jsval \<Rightarrow> encoded" where
  "convertEmploymentType (Num n) = Enc n"
| "convertEmploymentType (Str s) = mapping_or_zero s"
| "convertEmploymentType Undefined = mapping_or_zero ''undefined''"
| "convertEmploymentType Null = mapping_or_zero ''null''"

type_synonym prepared = "(rat, encoded) attributes"

definition prepareDataForBackend :: "beneficiary \<Rightarrow> prepared" where
  "prepareDataForBackend data =
     \<lparr>loan_repayment_status = nullish (loan_repayment_status data) 0,
      loan_tenure_months = nullish (loan_tenure_months data) 12,
      electricity_bill_paid_on_time = nullish (electricity_bill_paid_on_time data) 0,
      mobile_recharge_frequency = nullish (mobile_recharge_frequency data) 1,
      is_high_need = (if or_default (is_high_need data) 0 \<noteq> 0 then 1 else 0),
      age = nullish (age data) 30,
      monthly_income = nullish (monthly_income data) 0,
      employment_type = convertEmploymentType (employment_type data)\<rparr>"


section \<open>The API module: the simulate call\<close>

record sim_request =
  current_data :: prepared
  hypothetical_changes :: "(string \<times> encoded) list"

text \<open>
  How the HTTP client's request ends: with a response carrying data (the object the
  backend documents, or nothing when the body is \<open>null\<close>), with an error response (its
  status and the \<open>detail\<close> of its body, if any), with no response at all, or with an
  error raised before the request was sent.
\<close>

datatype axios_outcome =
    Response "sim_result option"
  | ErrorResponse nat "string option"
  | NoResponse
  | SetupError string

text \<open>\<open>error.response.data?.detail || 'Server error occurred'\<close>.\<close>

fun detail_or_default :: "string option \<Rightarrow> string" where
  "detail_or_default None = ''Server error occurred''"
| "detail_or_default (Some m) = (if m = [] then ''Server error occurred'' else m)"

text \<open>The response interceptor: data, or the message of the error it throws.\<close>

fun responseInterceptor :: "axios_outcome \<Rightarrow> string + sim_result option" where
  "responseInterceptor (Response d) = Inr d"
| "responseInterceptor (ErrorResponse status detail) =
     Inl (show_nat status @ '': '' @ detail_or_default detail)"
| "responseInterceptor NoResponse =
     Inl ''No response from server. Please check your connection.''"
| "responseInterceptor (SetupError m) = Inl (''Request error: '' @ m)"

text \<open>
  \<open>simulateScore\<close> posts the request; \<open>post\<close> stands for the server and the network
  behind \<open>/simulate\<close>. A failure is thrown again under a longer message.
\<close>

definition simulateScore ::
  "(sim_request \<Rightarrow> axios_outcome) \<Rightarrow> prepared \<Rightarrow> (string \<times> encoded) list
     \<Rightarrow> string + sim_result option" where
  "simulateScore post currentData hypotheticalChanges =
     (case responseInterceptor
             (post \<lparr>current_data = currentData, hypothetical_changes = hypotheticalChanges\<rparr>) of
        Inr d \<Rightarrow> Inr d
      | Inl m \<Rightarrow> Inl (''Failed to simulate score: '' @ m))"


section \<open>ScoreSimulator: the handler of the Simulate button\<close>

record chart_point =
  month :: string
  score :: "rat option"
  point_label :: string

text \<open>The component's state variables; \<open>explanationText\<close> is the variable \<open>explanation\<close>.\<close>

record sim_state =
  hypotheticalChanges :: changes
  projectedScore :: "rat option"
  scoreChange :: rat
  explanationText :: string
  loading :: bool
  error :: "string option"
  chartData :: "chart_point list"

definition resetSimulation :: "sim_state \<Rightarrow> sim_state" where
  "resetSimulation st =
     st\<lparr>hypotheticalChanges := [], projectedScore := None, scoreChange := 0,
        explanationText := [], error := None, chartData := []\<rparr>"

text \<open>The warning sign and its variation selector, in UTF-8, then the rest of the prefix.\<close>

definition fallbackMarker :: string where
  "fallbackMarker =
     [CHR 0xE2, CHR 0x9A, CHR 0xA0, CHR 0xEF, CHR 0xB8, CHR 0x8F] @
     '' Using simplified calculation (backend unavailable): ''"

definition journey :: "rat option \<Rightarrow> rat \<Rightarrow> chart_point list" where
  "journey currentScore projected =
     [\<lparr>month = ''Current'', score = currentScore, point_label = ''Current Score''\<rparr>,
      \<lparr>month = ''Projected'', score = Some projected, point_label = ''Projected Score''\<rparr>]"

text \<open>
  The loop that fills \<open>preparedChanges\<close>: every change is kept, the employment type
  after conversion.
\<close>

definition prepareChanges :: "changes \<Rightarrow> (string \<times> encoded) list" where
  "prepareChanges chs =
     map (\<lambda>(key, v). if key = ''employment_type''
                       then (key, convertEmploymentType (Num v)) else (key, Enc v)) chs"

text \<open>The test the \<open>catch\<close> block makes on the message of the error.\<close>

definition isConnectionIssue :: "string \<Rightarrow> bool" where
  "isConnectionIssue message =
     (str_includes message ''No response from server'' \<or> str_includes message ''Network Error'')"

definition backendNotResponding :: string where
  "backendNotResponding =
     ''Backend server not responding. Please ensure the backend server is running on http://localhost:8000''"

text \<open>
  What the \<open>try\<close> block of \<open>handleSimulate\<close> ends with: the result it goes on to
  show, or the message of the error it throws, which is the one \<open>simulateScore\<close> throws
  or, when the result is \<open>null\<close>, the engine's for reading \<open>result.projected_score\<close>.
\<close>

definition tryBlock ::
  "js_engine \<Rightarrow> (sim_request \<Rightarrow> axios_outcome) \<Rightarrow> prepared \<Rightarrow> (string \<times> encoded) list
     \<Rightarrow> string + sim_result" where
  "tryBlock js post preparedCurrentData preparedChanges =
     (case simulateScore post preparedCurrentData preparedChanges of
        Inl message \<Rightarrow> Inl message
      | Inr None \<Rightarrow> Inl (nullReadMessage js)
      | Inr (Some result) \<Rightarrow> Inr result)"

text \<open>
  \<open>handleSimulate\<close>, from the props and the state before the click to the state once
  the handler has finished, together with the requests it has sent to the backend.
\<close>

definition handleSimulate ::
  "js_engine \<Rightarrow> (sim_request \<Rightarrow> axios_outcome) \<Rightarrow> beneficiary option \<Rightarrow> rat option
     \<Rightarrow> sim_state \<Rightarrow> sim_state \<times> sim_request list" where
  "handleSimulate js post currentData currentScore st =
     (case currentData of
        None \<Rightarrow> (st\<lparr>error := Some ''Please make at least one change to simulate''\<rparr>, [])
      | Some cd \<Rightarrow>
          if hypotheticalChanges st = [] then
            (st\<lparr>error := Some ''Please make at least one change to simulate''\<rparr>, [])
          else
            (let preparedCurrentData = prepareDataForBackend cd;
                 preparedChanges = prepareChanges (hypotheticalChanges st);
                 sent = [\<lparr>current_data = preparedCurrentData,
                          hypothetical_changes = preparedChanges\<rparr>]
             in case tryBlock js post preparedCurrentData preparedChanges of
                  Inr result \<Rightarrow>
                    (st\<lparr>loading := False, error := None,
                        projectedScore := Some (projected_score result),
                        scoreChange := score_change result,
                        explanationText := explanation result,
                        chartData := journey currentScore (projected_score result)\<rparr>, sent)
                | Inl message \<Rightarrow>
                    if isConnectionIssue message then
                      (st\<lparr>loading := False, error := Some backendNotResponding\<rparr>, sent)
                    else
                      (let localResult = simulateScoreLocally js currentScore cd (hypotheticalChanges st)
                       in (st\<lparr>loading := False, error := None,
                              projectedScore := Some (projected_score localResult),
                              scoreChange := score_change localResult,
                              explanationText := fallbackMarker @ explanation localResult,
                              chartData := journey currentScore (projected_score localResult)\<rparr>,
                           sent))))"


section \<open>ScoreSimulator: the quick suggestions\<close>

record suggestion =
  parameter :: string
  new_value :: rat
  title :: string
  description :: string
  impact :: string

text \<open>\<open>(currentData.employment_type ?? 0) === 0\<close>: strict equality, so no label is equal to 0.\<close>

fun employment_is_zero :: "jsval \<Rightarrow> bool" where
  "employment_is_zero Undefined = True"
| "employment_is_zero Null = True"
| "employment_is_zero (Num r) = (r = 0)"
| "employment_is_zero (Str s) = False"

definition suggestLoan :: suggestion where
  "suggestLoan =
     \<lparr>parameter = ''loan_repayment_status'', new_value = 1,
      title = ''Improve Loan Repayment'',
      description = ''Make all future loan payments on time'', impact = ''High''\<rparr>"

definition suggestBills :: suggestion where
  "suggestBills =
     \<lparr>parameter = ''electricity_bill_paid_on_time'', new_value = 1,
      title = ''Pay Utility Bills On Time'',
      description = ''Set up automatic bill payments'', impact = ''Medium''\<rparr>"

definition suggestRecharge :: suggestion where
  "suggestRecharge =
     \<lparr>parameter = ''mobile_recharge_frequency'', new_value = 4,
      title = ''Increase Mobile Recharge Frequency'',
      description = ''Recharge more regularly to show stable income'', impact = ''Low''\<rparr>"

definition suggestEmployment :: suggestion where
  "suggestEmployment =
     \<lparr>parameter = ''employment_type'', new_value = 2,
      title = ''Secure Stable Employment'',
      description = ''Find salaried employment for better creditworthiness'', impact = ''High''\<rparr>"

definition getImprovementSuggestions :: "beneficiary option \<Rightarrow> suggestion list" where
  "getImprovementSuggestions currentData =
     (case currentData of
        None \<Rightarrow> []
      | Some cd \<Rightarrow>
          (let loanRepaymentStatus = nullish (loan_repayment_status cd) 0;
               electricityBillStatus = nullish (electricity_bill_paid_on_time cd) 0;
               mobileRechargeFreq = nullish (mobile_recharge_frequency cd) 1;
               suggestions =
                 (if loanRepaymentStatus = 0 then [suggestLoan] else []) @
                 (if electricityBillStatus = 0 then [suggestBills] else []) @
                 (if mobileRechargeFreq < 3 then [suggestRecharge] else []) @
                 (if employment_is_zero (employment_type cd) then [suggestEmployment] else [])
           in take 3 suggestions))"

text \<open>The rank of an impact label, to compare two suggestions.\<close>

definition impact_rank :: "string \<Rightarrow> nat" where
  "impact_rank l = (if l = ''High'' then 3 else if l = ''Medium'' then 2 else if l = ''Low'' then 1 else 0)"


section \<open>RiskMatrix\<close>

record category =
  cat_id :: string
  risk :: string
  need :: string
  color :: string
  cat_label :: string
  cat_description :: string
  recommendation :: string

definition matrixCategories :: "category list" where
  "matrixCategories =
     [\<lparr>cat_id = ''low-risk-low-need'', risk = ''Low Risk'', need = ''Low Need'',
       color = ''#4caf50'', cat_label = ''Stable'',
       cat_description = ''Low risk, financially stable'',
       recommendation = ''Maintain current financial habits''\<rparr>,
      \<lparr>cat_id = ''low-risk-high-need'', risk = ''Low Risk'', need = ''High Need'',
       color = ''#2196f3'', cat_label = ''Prime Candidate'',
       cat_description = ''Low risk, high need for credit'',
       recommendation = ''Ideal for loan approval''\<rparr>,
      \<lparr>cat_id = ''medium-risk-low-need'', risk = ''Medium Risk'', need = ''Low Need'',
       color = ''#ff9800'', cat_label = ''Monitor'',
       cat_description = ''Moderate risk, low need'',
       recommendation = ''Monitor financial behavior''\<rparr>,
      \<lparr>cat_id = ''high-risk-low-need'', risk = ''High Risk'', need = ''Low Need'',
       color = ''#ff9800'', cat_label = ''Monitor'',
       cat_description = ''High risk, low need'',
       recommendation = ''Monitor financial behavior''\<rparr>,
      \<lparr>cat_id = ''medium-risk-high-need'', risk = ''Medium Risk'', need = ''High Need'',
       color = ''#ff5722'', cat_label = ''Caution'',
       cat_description = ''Moderate risk, high need'',
       recommendation = ''Conditional approval with guidance''\<rparr>,
      \<lparr>cat_id = ''high-risk-high-need'', risk = ''High Risk'', need = ''High Need'',
       color = ''#f44336'', cat_label = ''High Risk'',
       cat_description = ''High risk, high need'',
       recommendation = ''Requires financial guidance''\<rparr>]"

text \<open>
  \<open>category.split(' - ')\<close>: the pieces between the occurrences of the separator, found
  from left to right; \<open>piece\<close> is the piece being read.
\<close>

fun split_dash :: "string \<Rightarrow> string \<Rightarrow> string list" where
  "split_dash piece [] = [piece]"
| "split_dash piece (c # cs) =
     (if prefix '' - '' (c # cs) then piece # split_dash [] (drop 2 cs)
      else split_dash (piece @ [c]) cs)"

text \<open>\<open>parts[i] || 'Unknown'\<close>: a missing piece and an empty one both give the default.\<close>

definition part_or_unknown :: "string list \<Rightarrow> nat \<Rightarrow> string" where
  "part_or_unknown parts i =
     (if i < length parts \<and> parts ! i \<noteq> [] then parts ! i else ''Unknown'')"

definition parseRiskCategory :: "string option \<Rightarrow> string \<times> string" where
  "parseRiskCategory cat =
     (case cat of
        None \<Rightarrow> (''Unknown'', ''Unknown'')
      | Some c \<Rightarrow>
          if c = [] then (''Unknown'', ''Unknown'')
          else (let parts = split_dash [] c
                in (part_or_unknown parts 0, part_or_unknown parts 1)))"

text \<open>\<open>currentCategory\<close>, for the parsed \<open>risk\<close> and \<open>need\<close>.\<close>

definition currentCategory :: "string \<Rightarrow> string \<Rightarrow> category option" where
  "currentCategory r n =
     (case find (\<lambda>cat. risk cat = r \<and> need cat = n) matrixCategories of
        Some cat \<Rightarrow> Some cat
      | None \<Rightarrow> find (\<lambda>cat. str_includes (risk cat) ''Medium'' \<and> need cat = n) matrixCategories)"

text \<open>
  \<open>getRecommendation\<close>, from the props \<open>riskCategory\<close> and \<open>score\<close>; a missing score
  compares false with every threshold.
\<close>

definition getRecommendation :: "string option \<Rightarrow> rat option \<Rightarrow> string" where
  "getRecommendation riskCategory score_prop =
     (let (r, n) = parseRiskCategory riskCategory in
      case currentCategory r n of
        Some cat \<Rightarrow> recommendation cat
      | None \<Rightarrow>
          (case score_prop of
             None \<Rightarrow> ''Requires improvement - provide financial guidance''
           | Some s \<Rightarrow>
               if s \<ge> 700 then ''Excellent creditworthiness - approve loans confidently''
               else if s \<ge> 550 then ''Good candidate - consider with standard terms''
               else ''Requires improvement - provide financial guidance''))"


section \<open>Sample props, states and backends\<close>

text \<open>The body that the handler posts for a beneficiary and a set of changes.\<close>

definition requestOf :: "beneficiary \<Rightarrow> changes \<Rightarrow> sim_request" where
  "requestOf cd chs =
     \<lparr>current_data = prepareDataForBackend cd, hypothetical_changes = prepareChanges chs\<rparr>"

text \<open>The state of a freshly mounted simulator: the initial values of its \<open>useState\<close> calls.\<close>

definition initialState :: sim_state where
  "initialState =
     \<lparr>hypotheticalChanges = [], projectedScore = None, scoreChange = 0,
      explanationText = [], loading = False, error = None, chartData = []\<rparr>"

text \<open>A backend that answers every request with an error status, and one that never answers.\<close>

definition unavailableBackend :: "sim_request \<Rightarrow> axios_outcome" where
  "unavailableBackend req = ErrorResponse 503 (Some ''Model not loaded'')"

definition unreachableBackend :: "sim_request \<Rightarrow> axios_outcome" where
  "unreachableBackend req = NoResponse"

definition lateRepayer :: beneficiary where
  "lateRepayer = no_attributes\<lparr>loan_repayment_status := Some 0\<rparr>"

definition repaymentEdited :: sim_state where
  "repaymentEdited = initialState\<lparr>hypotheticalChanges := [(''loan_repayment_status'', 1)]\<rparr>"


text \<open>A backend that answers with a projection of its own.\<close>

definition answeringBackend :: "sim_request \<Rightarrow> axios_outcome" where
  "answeringBackend req =
     Response (Some \<lparr>projected_score = 700, score_change = 50,
                     explanation = ''Projected by the model''\<rparr>)"

text \<open>
  An engine for the samples. None of them compares a number with a string or prints a
  number from \<open>2 ^ 53\<close> on, so its two functions are not consulted there; the message
  is the one V8 gives.
\<close>

definition sampleEngine :: js_engine where
  "sampleEngine =
     \<lparr>stringToNumber = (\<lambda>s. NaN), bigToString = (\<lambda>i. []),
      nullReadMessage = ''Cannot read properties of null (reading 'projected_score')''\<rparr>"


text \<open>
  A beneficiary whose income, 4750.000000000001 as a double, is a fraction above 4750.
\<close>

definition fractionalIncome :: beneficiary where
  "fractionalIncome = no_attributes\<lparr>monthly_income := Some (4750 + 1 / 2 ^ 40)\<rparr>"

text \<open>A beneficiary for whom all four quick suggestions apply.\<close>

definition allHurting :: beneficiary where
  "allHurting =
     no_attributes\<lparr>loan_repayment_status := Some 0, electricity_bill_paid_on_time := Some 0,
       mobile_recharge_frequency := Some 1, employment_type := Num 0\<rparr>"


section \<open>Arithmetic helpers\<close>

lemma floor_rat_numeral_div [simp]:
  "\<lfloor>(numeral a :: rat) / numeral b\<rfloor> = numeral a div numeral b"
  using floor_divide_of_int_eq [of "numeral a" "numeral b", where ?'a = rat] by simp

lemma floor_rat_one_div [simp]: "\<lfloor>(1 :: rat) / numeral b\<rfloor> = 1 div numeral b"
  using floor_divide_of_int_eq [of 1 "numeral b", where ?'a = rat] by simp


section \<open>Rounding to a double\<close>

lemma bitlen_powi_bounds:
  assumes "0 < k"
  shows "(2::rat) powi (bitlen k - 1) \<le> of_int k" and "of_int k < (2::rat) powi bitlen k"
proof -
  from bitlen_bounds [OF assms] have a: "2 ^ nat (bitlen k - 1) \<le> k" and b: "k < 2 ^ nat (bitlen k)"
    by simp_all
  have pos: "1 \<le> bitlen k" using assms by (simp add: bitlen_alt_def)
  have "(2::rat) powi (bitlen k - 1) = of_int (2 ^ nat (bitlen k - 1))"
    using pos by (simp add: power_int_nonneg_exp)
  also have "\<dots> \<le> of_int k" using a by (simp only: of_int_le_iff)
  finally show "(2::rat) powi (bitlen k - 1) \<le> of_int k" .
  have "(of_int k :: rat) < of_int (2 ^ nat (bitlen k))" using b by (simp only: of_int_less_iff)
  also have "\<dots> = (2::rat) powi bitlen k"
    using pos by (simp add: power_int_nonneg_exp)
  finally show "of_int k < (2::rat) powi bitlen k" .
qed

lemma powi2_pos [simp]: "0 < (2::rat) powi k"
  by (simp add: zero_less_power_int)

lemma powi2_less_iff: "(2::rat) powi a < 2 powi b \<longleftrightarrow> a < b"
proof
  assume "(2::rat) powi a < 2 powi b"
  show "a < b"
  proof (rule ccontr)
    assume "\<not> a < b"
    then have "b \<le> a" by simp
    then have "(2::rat) powi b \<le> 2 powi a" by (intro power_int_increasing) simp_all
    with \<open>(2::rat) powi a < 2 powi b\<close> show False by simp
  qed
next
  assume "a < b"
  then show "(2::rat) powi a < 2 powi b" by (intro power_int_strict_increasing) simp_all
qed

lemma powi2_le_iff: "(2::rat) powi a \<le> 2 powi b \<longleftrightarrow> a \<le> b"
  using powi2_less_iff [of b a] by (auto simp add: not_less [symmetric])

lemma binade_bounds:
  assumes "x \<noteq> 0"
  shows "2 powi binade x \<le> \<bar>x\<bar>" and "\<bar>x\<bar> < 2 powi (binade x + 1)"
proof -
  obtain n d where q: "quotient_of x = (n, d)" by (cases "quotient_of x")
  then have d: "0 < d" and x: "x = of_int n / of_int d"
    by (simp_all add: quotient_of_denom_pos quotient_of_div)
  from assms x have n: "0 < \<bar>n\<bar>" by auto
  define c where "c = bitlen \<bar>n\<bar> - bitlen d"
  have ax: "\<bar>x\<bar> = of_int \<bar>n\<bar> / of_int d" using d by (simp add: x)
  have dpos: "(0::rat) < of_int d" using d by simp
  note bn = bitlen_powi_bounds [OF n] and bd = bitlen_powi_bounds [OF d]
  have lo: "2 powi (c - 1) < \<bar>x\<bar>"
  proof -
    have "(2::rat) powi (c - 1) * of_int d < 2 powi (c - 1) * 2 powi bitlen d"
      using bd(2) by (intro mult_strict_left_mono) simp_all
    also have "\<dots> = 2 powi (bitlen \<bar>n\<bar> - 1)"
      by (simp add: c_def flip: power_int_add)
    also have "\<dots> \<le> of_int \<bar>n\<bar>" by (rule bn(1))
    finally show ?thesis using dpos by (simp add: ax pos_less_divide_eq)
  qed
  have hi: "\<bar>x\<bar> < 2 powi (c + 1)"
  proof -
    have "(of_int \<bar>n\<bar> :: rat) < 2 powi bitlen \<bar>n\<bar>" by (rule bn(2))
    also have "\<dots> = 2 powi (c + 1) * 2 powi (bitlen d - 1)"
      by (simp add: c_def flip: power_int_add)
    also have "\<dots> \<le> 2 powi (c + 1) * of_int d"
      using bd(1) by (intro mult_left_mono) simp_all
    finally show ?thesis using dpos by (simp add: ax pos_divide_less_eq)
  qed
  have b: "binade x = (if 2 powi c \<le> \<bar>x\<bar> then c else c - 1)"
    by (simp add: binade_def q c_def)
  show "2 powi binade x \<le> \<bar>x\<bar>" using lo by (simp add: b)
  show "\<bar>x\<bar> < 2 powi (binade x + 1)" using hi by (auto simp add: b)
qed

lemma binade_unique:
  assumes "2 powi e \<le> \<bar>x\<bar>" and "\<bar>x\<bar> < 2 powi (e + 1)"
  shows "binade x = e"
proof -
  have "0 < \<bar>x\<bar>" using assms(1) powi2_pos [of e] by linarith
  then have "x \<noteq> 0" by simp
  note b = binade_bounds [OF this]
  from b(1) assms(2) have "(2::rat) powi binade x < 2 powi (e + 1)" by simp
  then have 1: "binade x < e + 1" by (simp only: powi2_less_iff)
  from assms(1) b(2) have "(2::rat) powi e < 2 powi (binade x + 1)" by simp
  then have 2: "e < binade x + 1" by (simp only: powi2_less_iff)
  from 1 2 show ?thesis by simp
qed

lemma round_half_even_of_int [simp]: "round_half_even (of_int z) = z"
  by (simp add: round_half_even_def)

text \<open>A number with a significand of at most 53 bits and an exponent in range is a double.\<close>

lemma fl_representable:
  assumes "\<bar>m\<bar> < 2 ^ 53" and "- 1074 \<le> j"
  shows "fl (of_int m * 2 powi j) = of_int m * 2 powi j"
proof (cases "m = 0")
  case True
  then show ?thesis by (simp add: fl_def)
next
  case False
  define x :: rat where "x = of_int m * 2 powi j"
  have x0: "x \<noteq> 0" using False by (simp add: x_def)
  define e where "e = max (binade x) (- 1022)"
  have ej: "e \<le> j + 52"
  proof (cases "binade x \<le> - 1022")
    case True
    then show ?thesis using assms(2) by (simp add: e_def)
  next
    case False
    then have e: "e = binade x" by (simp add: e_def)
    have "\<bar>x\<bar> = of_int \<bar>m\<bar> * 2 powi j" by (simp add: x_def abs_mult)
    also have "\<dots> < 2 ^ 53 * 2 powi j"
    proof -
      have "(of_int \<bar>m\<bar> :: rat) < of_int (2 ^ 53)" using assms(1) by (simp only: of_int_less_iff)
      then show ?thesis by (intro mult_strict_right_mono) simp_all
    qed
    also have "\<dots> = 2 powi (j + 53)" by (simp add: power_int_add)
    finally have "(2::rat) powi binade x < 2 powi (j + 53)"
      using binade_bounds(1) [OF x0] by simp
    then show ?thesis by (simp add: e powi2_less_iff)
  qed
  define k where "k = nat (j + 52 - e)"
  have "x / 2 powi (e - 52) = of_int m * 2 powi (j - (e - 52))"
    by (simp add: x_def power_int_diff)
  also have "\<dots> = of_int m * 2 ^ k"
    using ej by (simp add: k_def power_int_nonneg_exp algebra_simps)
  also have "\<dots> = of_int (m * 2 ^ k)" by simp
  finally have eq: "x / 2 powi (e - 52) = of_int (m * 2 ^ k)" .
  have "round_half_even (x / 2 powi (e - 52)) = m * 2 ^ k"
    by (simp only: eq round_half_even_of_int)
  then have "of_int (round_half_even (x / 2 powi (e - 52))) = x / 2 powi (e - 52)"
    by (simp only: eq)
  moreover have "fl x = 2 powi (e - 52) * of_int (round_half_even (x / 2 powi (e - 52)))"
    using x0 by (simp add: fl_def e_def Let_def)
  ultimately have "fl x = 2 powi (e - 52) * (x / 2 powi (e - 52))" by simp
  then show ?thesis by (simp add: x_def)
qed

lemma fl_of_int: "\<bar>n\<bar> < 2 ^ 53 \<Longrightarrow> fl (of_int n) = of_int n"
  using fl_representable [of n 0] by simp

lemma fl_eq:
  assumes "2 powi e \<le> \<bar>x\<bar>" and "\<bar>x\<bar> < 2 powi (e + 1)" and "- 1022 \<le> e"
  shows "fl x = 2 powi (e - 52) * of_int (round_half_even (x / 2 powi (e - 52)))"
proof -
  have "0 < \<bar>x\<bar>" using assms(1) powi2_pos [of e] by linarith
  then have "x \<noteq> 0" by simp
  then show ?thesis using binade_unique [OF assms(1,2)] assms(3) by (simp add: fl_def Let_def max_def)
qed

lemma fl_of_int_integral: "fl (of_int n) \<in> \<int>"
proof (cases "\<bar>n\<bar> < 2 ^ 53")
  case True
  then show ?thesis by (simp add: fl_of_int)
next
  case False
  then have big: "2 ^ 53 \<le> \<bar>n\<bar>" by simp
  define x :: rat where "x = of_int n"
  have x0: "x \<noteq> 0" using big by (auto simp add: x_def)
  have "(2::rat) powi 53 = of_int (2 ^ 53)" by simp
  also have "\<dots> \<le> of_int \<bar>n\<bar>" using big by (simp only: of_int_le_iff)
  also have "\<dots> = \<bar>x\<bar>" by (simp add: x_def)
  also have "\<dots> < 2 powi (binade x + 1)" by (rule binade_bounds(2) [OF x0])
  finally have "53 < binade x + 1" by (simp only: powi2_less_iff)
  then have e: "52 \<le> binade x" by simp
  then have "max (binade x) (- 1022) - 52 \<ge> 0" by simp
  then have "(2::rat) powi (max (binade x) (- 1022) - 52) \<in> \<int>"
    by (simp add: power_int_nonneg_exp)
  then have "fl x \<in> \<int>" using x0 by (simp add: fl_def Let_def)
  then show ?thesis by (simp add: x_def)
qed


lemma fl_zero [simp]: "fl 0 = 0"
  by (simp add: fl_def)

lemma fl_numeral [simp]:
  "(numeral k :: int) < 9007199254740992 \<Longrightarrow> fl (numeral k) = numeral k"
  using fl_of_int [of "numeral k"] by simp

lemma fl_neg_numeral [simp]:
  "(numeral k :: int) < 9007199254740992 \<Longrightarrow> fl (- numeral k) = - numeral k"
  using fl_of_int [of "- numeral k"] by simp

lemma fl_one [simp]: "fl 1 = 1"
  using fl_of_int [of 1] by simp

lemma round_half_even_lower: "\<lfloor>y\<rfloor> \<le> round_half_even y"
  by (simp add: round_half_even_def Let_def)

lemma round_half_even_upper: "round_half_even y \<le> \<lfloor>y\<rfloor> + 1"
  by (simp add: round_half_even_def Let_def)

text \<open>The result of the rounding is a double: rounding it again changes nothing.\<close>

lemma fl_idem [simp]: "fl (fl x) = fl x"
proof (cases "x = 0")
  case True
  then show ?thesis by simp
next
  case False
  define e where "e = max (binade x) (- 1022)"
  define z where "z = round_half_even (x / 2 powi (e - 52))"
  have flx: "fl x = of_int z * 2 powi (e - 52)"
    using False by (simp add: fl_def Let_def e_def z_def mult.commute)
  have "\<bar>x\<bar> < 2 powi (binade x + 1)" by (rule binade_bounds(2) [OF False])
  also have "\<dots> \<le> 2 powi (e + 1)" by (simp add: powi2_le_iff e_def)
  finally have "\<bar>x\<bar> < 2 powi (e + 1)" .
  moreover have split: "(2::rat) powi (e + 1) = 2 powi (e - 52) * 2 ^ 53"
  proof -
    have "(2::rat) powi (e + 1) = 2 powi ((e - 52) + 53)"
      by (rule arg_cong [of _ _ "\<lambda>k. 2 powi k"]) simp
    also have "\<dots> = 2 powi (e - 52) * 2 powi 53" by (rule power_int_add) simp
    finally show ?thesis by simp
  qed
  ultimately have "\<bar>x\<bar> < 2 powi (e - 52) * 2 ^ 53" by simp
  then have y: "\<bar>x / 2 powi (e - 52)\<bar> < 2 ^ 53"
    by (simp add: abs_divide pos_divide_less_eq mult.commute)
  have lo: "- (2 ^ 53) \<le> z"
  proof -
    have "(- (2 ^ 53) :: rat) \<le> x / 2 powi (e - 52)" using y by linarith
    then have "of_int (- (2 ^ 53)) \<le> x / 2 powi (e - 52)" by simp
    then have "- (2 ^ 53) \<le> \<lfloor>x / 2 powi (e - 52)\<rfloor>" by (simp only: le_floor_iff)
    with round_half_even_lower [of "x / 2 powi (e - 52)"] show ?thesis
      unfolding z_def by linarith
  qed
  have hi: "z \<le> 2 ^ 53"
  proof -
    have "x / 2 powi (e - 52) < 2 ^ 53" using y by linarith
    then have "x / 2 powi (e - 52) < of_int (2 ^ 53)" by simp
    then have "\<lfloor>x / 2 powi (e - 52)\<rfloor> < 2 ^ 53" by (simp only: floor_less_iff)
    with round_half_even_upper [of "x / 2 powi (e - 52)"] show ?thesis
      unfolding z_def by linarith
  qed
  have j: "- 1074 \<le> e - 52" by (simp add: e_def)
  consider "\<bar>z\<bar> < 2 ^ 53" | "z = 2 ^ 53" | "z = - (2 ^ 53)"
    using lo hi by linarith
  then show ?thesis
  proof cases
    case 1
    from fl_representable [OF 1 j] show ?thesis by (simp add: flx)
  next
    case 2
    have "fl x = of_int 1 * 2 powi (e + 1)"
      by (simp add: flx 2 split)
    moreover have "fl (of_int 1 * 2 powi (e + 1)) = of_int 1 * 2 powi (e + 1)"
      using j by (intro fl_representable) simp_all
    ultimately show ?thesis by simp
  next
    case 3
    have "fl x = of_int (- 1) * 2 powi (e + 1)"
      by (simp add: flx 3 split)
    moreover have "fl (of_int (- 1) * 2 powi (e + 1)) = of_int (- 1) * 2 powi (e + 1)"
      using j by (intro fl_representable) simp_all
    ultimately show ?thesis by simp
  qed
qed


section \<open>The income term of the local simulation\<close>

lemma fl_times_pow2: "\<bar>m\<bar> < 2 ^ 53 \<Longrightarrow> fl (of_int m * 2 ^ n) = of_int m * 2 ^ n"
  using fl_representable [of m "int n"] by simp

lemma fl_over_pow2:
  "\<bar>m\<bar> < 2 ^ 53 \<Longrightarrow> n \<le> 1074 \<Longrightarrow> fl (of_int m / 2 ^ n) = of_int m / 2 ^ n"
  using fl_representable [of m "- int n"] by (simp add: power_int_minus_divide)

lemma fl_min_50 [simp]: "fl (min (fl a) 50) = min (fl a) 50"
  by (simp add: min_def)

lemma fl_incomeTerm [simp]: "fl (incomeTerm current v) = incomeTerm current v"
  by (simp add: incomeTerm_def Let_def)

lemma applyChange_income:
  "applyChange js current acc (''monthly_income'', v) = fl (acc + incomeTerm current v)"
  by (simp add: applyChange_def incomeTerm_def Let_def)

lemma scoreAdjustmentOf_snoc:
  "scoreAdjustmentOf js current (chs @ [entry]) =
     applyChange js current (scoreAdjustmentOf js current chs) entry"
  by (simp add: scoreAdjustmentOf_def)

lemma incomeTerm_exact:
  assumes "v - or_default (monthly_income current) 0 = of_int (125 * k)"
    and "\<bar>125 * k\<bar> < 2 ^ 53"
  shows "incomeTerm current v = min (2 * (v - or_default (monthly_income current) 0) / 1000) 50"
proof -
  have k: "\<bar>k\<bar> < 2 ^ 53" using assms(2) by linarith
  have 1: "fl (of_int (125 * k)) = of_int (125 * k)" using assms(2) by (rule fl_of_int)
  have "(of_int (125 * k) :: rat) / 1000 = of_int k / 2 ^ 3" by simp
  then have 2: "fl (of_int (125 * k) / 1000) = of_int k / 2 ^ 3"
    using fl_over_pow2 [OF k, of 3] by simp
  have "(of_int k :: rat) / 2 ^ 3 * 2 = of_int k / 2 ^ 2" by simp
  then have 3: "fl (of_int k / 2 ^ 3 * 2) = of_int k / 2 ^ 2"
    using fl_over_pow2 [OF k, of 2] by simp
  have "incomeTerm current v = min (of_int k / 2 ^ 2) 50"
    by (simp only: incomeTerm_def Let_def assms(1) 1 2 3)
  also have "(of_int k :: rat) / 2 ^ 2 = 2 * of_int (125 * k) / 1000" by simp
  finally show ?thesis by (simp only: assms(1))
qed

lemma incomeTerm_fall:
  "incomeTerm (no_attributes\<lparr>monthly_income := Some (1000 * 2 ^ n)\<rparr>) 0 = - (2 ^ (n + 1))"
proof -
  have old: "or_default (monthly_income (no_attributes\<lparr>monthly_income := Some (1000 * 2 ^ n)\<rparr>)) 0
      = 1000 * 2 ^ n"
    by simp
  have eq: "(1000::rat) * 2 ^ n = 125 * 2 ^ (n + 3)" by (simp add: power_add)
  have "fl (- (125 * 2 ^ (n + 3))) = - (125 * 2 ^ (n + 3))"
    using fl_times_pow2 [of "- 125" "n + 3"] by simp
  then have 1: "fl (0 - 1000 * 2 ^ n) = - (1000 * 2 ^ n)"
    by (simp add: eq)
  have "- ((1000::rat) * 2 ^ n) / 1000 = of_int (- 1) * 2 ^ n" by simp
  then have 2: "fl (- (1000 * 2 ^ n) / 1000) = - (2 ^ n)"
    using fl_times_pow2 [of "- 1" n] by simp
  have "- ((2::rat) ^ n) * 2 = of_int (- 1) * 2 ^ (n + 1)" by simp
  then have 3: "fl (- (2 ^ n) * 2) = - (2 ^ (n + 1))"
    using fl_times_pow2 [of "- 1" "n + 1"] by (simp add: mult.commute)
  have "(- (2 ^ (n + 1)) :: rat) \<le> 50"
  proof -
    have "(0::rat) \<le> 2 ^ (n + 1)" by simp
    then show ?thesis by linarith
  qed
  then show ?thesis
    by (simp only: incomeTerm_def Let_def old 1 2 3 min_def if_True)
qed

lemma Math_round_ge: "of_int k \<le> x \<Longrightarrow> of_int k \<le> Math_round x"
  by (simp add: Math_round_def le_floor_iff)

lemma projected_at_least_300: "300 \<le> projected_score (simulateScoreLocally js cs current chs)"
  using Math_round_ge [of 300 "max 300 (min 850 (fl (or_default cs 650 + scoreAdjustmentOf js current chs)))"]
  by (simp add: simulateScoreLocally_def Let_def)

text \<open>
  Claim C10. In the local simulation the case \<open>monthly_income\<close> adds to the running
  adjustment, whatever it is, the term \<open>min (2 * (new - old) / 1000) 50\<close> computed in
  doubles, \<open>old\<close> being the current income (zero when missing); the term is this formula
  exactly whenever the incomes differ by a whole multiple of 125. A rise adds at most 50
  points; a fall has no floor: from an income of \<open>1000 * 2 ^ n\<close> to 0 the term is
  \<open>- 2 ^ (n + 1)\<close>, as far as doubles reach. The score change returned is the rounded
  adjustment, so for the income change alone it is the rounded term; only the clamp of
  the projected score stops the fall, at 300.
\<close>

theorem income_contribution_asymmetric:
  "applyChange js current acc (''monthly_income'', v) = fl (acc + incomeTerm current v)
   \<and> incomeTerm current v \<le> 50
   \<and> (\<forall>k. v - or_default (monthly_income current) 0 = of_int (125 * k) \<and> \<bar>125 * k\<bar> < 2 ^ 53
          \<longrightarrow> incomeTerm current v = min (2 * (v - or_default (monthly_income current) 0) / 1000) 50)
   \<and> (\<forall>n. n \<le> 1000 \<longrightarrow>
          incomeTerm (no_attributes\<lparr>monthly_income := Some (1000 * 2 ^ n)\<rparr>) 0 = - (2 ^ (n + 1)))
   \<and> scoreAdjustmentOf js current (chs @ [(''monthly_income'', v)]) =
        fl (scoreAdjustmentOf js current chs + incomeTerm current v)
   \<and> score_change (simulateScoreLocally js cs current chs) =
        Math_round (scoreAdjustmentOf js current chs)
   \<and> score_change (simulateScoreLocally js cs current [(''monthly_income'', v)]) =
        Math_round (incomeTerm current v)
   \<and> projected_score (simulateScoreLocally js cs current [(''monthly_income'', v)]) =
        Math_round (max 300 (min 850 (fl (or_default cs 650 + incomeTerm current v))))
   \<and> 300 \<le> projected_score (simulateScoreLocally js cs current chs)"
proof (intro conjI allI impI)
  show "applyChange js current acc (''monthly_income'', v) = fl (acc + incomeTerm current v)"
    by (rule applyChange_income)
  show "incomeTerm current v \<le> 50"
    by (simp add: incomeTerm_def Let_def)
  show "incomeTerm current v = min (2 * (v - or_default (monthly_income current) 0) / 1000) 50"
    if "v - or_default (monthly_income current) 0 = of_int (125 * k) \<and> \<bar>125 * k\<bar> < 2 ^ 53" for k
    using that incomeTerm_exact by blast
  show "incomeTerm (no_attributes\<lparr>monthly_income := Some (1000 * 2 ^ n)\<rparr>) 0 = - (2 ^ (n + 1))" for n
    by (rule incomeTerm_fall)
  show "scoreAdjustmentOf js current (chs @ [(''monthly_income'', v)]) =
        fl (scoreAdjustmentOf js current chs + incomeTerm current v)"
    by (simp only: scoreAdjustmentOf_snoc applyChange_income)
  show "score_change (simulateScoreLocally js cs current chs) =
        Math_round (scoreAdjustmentOf js current chs)"
    by (simp add: simulateScoreLocally_def Let_def)
  have one: "scoreAdjustmentOf js current [(''monthly_income'', v)] = incomeTerm current v"
    by (simp add: scoreAdjustmentOf_def applyChange_income)
  show "score_change (simulateScoreLocally js cs current [(''monthly_income'', v)]) =
        Math_round (incomeTerm current v)"
    by (simp add: simulateScoreLocally_def Let_def one)
  show "projected_score (simulateScoreLocally js cs current [(''monthly_income'', v)]) =
        Math_round (max 300 (min 850 (fl (or_default cs 650 + incomeTerm current v))))"
    by (simp add: simulateScoreLocally_def Let_def one)
  show "300 \<le> projected_score (simulateScoreLocally js cs current chs)"
    by (rule projected_at_least_300)
qed

lemma lateRepayer_fields:
  "loan_repayment_status lateRepayer = Some 0" "monthly_income lateRepayer = None"
  by (simp_all add: lateRepayer_def no_attributes_def)

theorem income_contribution_asymmetric_witness:
  "applyChange sampleEngine lateRepayer 40 (''monthly_income'', 1000) = 42
   \<and> incomeTerm lateRepayer 1000 = 2
   \<and> incomeTerm (no_attributes\<lparr>monthly_income := Some (1000 * 2 ^ 3)\<rparr>) 0 = - (2 ^ (3 + 1))
   \<and> score_change (simulateScoreLocally sampleEngine (Some 650) lateRepayer [(''monthly_income'', 1000)]) = 2
   \<and> projected_score (simulateScoreLocally sampleEngine (Some 650) lateRepayer [(''monthly_income'', 1000)]) = 652"
proof -
  have d: "1000 - or_default (monthly_income lateRepayer) 0 = of_int (125 * 8) \<and> \<bar>125 * (8::int)\<bar> < 2 ^ 53"
    by (simp add: lateRepayer_fields)
  have n: "(3::nat) \<le> 1000" by simp
  note t = income_contribution_asymmetric [of sampleEngine lateRepayer 40 1000 "[]" "Some 650"]
  from t d have two: "incomeTerm lateRepayer 1000 = 2"
    by (simp add: lateRepayer_fields)
  from t n have fall: "incomeTerm (no_attributes\<lparr>monthly_income := Some (1000 * 2 ^ 3)\<rparr>) 0 = - (2 ^ (3 + 1))"
    by blast
  from t two show ?thesis
    using fall by (simp add: Math_round_def)
qed

section \<open>Where the error message can mention a connection issue\<close>

lemma str_includes_skip:
  "c \<notin> set p \<Longrightarrow> str_includes (p @ s) (c # pat) = str_includes s (c # pat)"
  by (induction p) auto

lemma isConnectionIssue_skip:
  "CHR ''N'' \<notin> set p \<Longrightarrow> isConnectionIssue (p @ s) = isConnectionIssue s"
  by (simp add: isConnectionIssue_def str_includes_skip)

lemma show_digits_digits: "0 \<le> i \<Longrightarrow> set (show_digits i) \<subseteq> set ''0123456789''"
proof (induction i rule: show_digits.induct)
  case (1 i)
  have d: "''0123456789'' ! k \<in> set ''0123456789''" if "k < 10" for k
    using that by (intro nth_mem) simp
  show ?case
  proof (cases "i < 10")
    case True
    with "1.prems" have "nat i < 10" by simp
    then show ?thesis using True d [of "nat i"] by (subst show_digits.simps) simp
  next
    case False
    have "nat (i mod 10) < 10" by simp
    moreover have "0 \<le> i div 10" using "1.prems" by simp
    ultimately show ?thesis
      using False "1.IH" d [of "nat (i mod 10)"] by (subst show_digits.simps) simp
  qed
qed

lemma show_nat_digits: "set (show_nat n) \<subseteq> set ''0123456789''"
  unfolding show_nat_def by (rule show_digits_digits) simp

lemma show_nat_no_N: "CHR ''N'' \<notin> set (show_nat n)"
  using show_nat_digits [of n] by auto

lemma default_detail_no_issue: "\<not> isConnectionIssue ''Server error occurred''"
  by (simp add: isConnectionIssue_def)

lemma no_response_issue:
  "isConnectionIssue ''Failed to simulate score: No response from server. Please check your connection.''"
  by (simp add: isConnectionIssue_def)

text \<open>What the \<open>try\<close> block ends with, for each way the request can end.\<close>

lemma tryBlock_outcome:
  "post \<lparr>current_data = d, hypothetical_changes = c\<rparr> = ErrorResponse status detail \<Longrightarrow>
     tryBlock js post d c =
       Inl (''Failed to simulate score: '' @ show_nat status @ '': '' @ detail_or_default detail)"
  "post \<lparr>current_data = d, hypothetical_changes = c\<rparr> = NoResponse \<Longrightarrow>
     tryBlock js post d c =
       Inl ''Failed to simulate score: No response from server. Please check your connection.''"
  "post \<lparr>current_data = d, hypothetical_changes = c\<rparr> = SetupError m \<Longrightarrow>
     tryBlock js post d c = Inl (''Failed to simulate score: Request error: '' @ m)"
  "post \<lparr>current_data = d, hypothetical_changes = c\<rparr> = Response (Some r) \<Longrightarrow>
     tryBlock js post d c = Inr r"
  "post \<lparr>current_data = d, hypothetical_changes = c\<rparr> = Response None \<Longrightarrow>
     tryBlock js post d c = Inl (nullReadMessage js)"
  by (simp_all add: tryBlock_def simulateScore_def)

lemma error_response_issue:
  "isConnectionIssue (''Failed to simulate score: '' @ show_nat status @ '': '' @ text) =
     isConnectionIssue text"
proof -
  have "CHR ''N'' \<notin> set (''Failed to simulate score: '' @ show_nat status @ '': '')"
    using show_nat_no_N [of status] by simp
  from isConnectionIssue_skip [OF this, of "text"] show ?thesis by simp
qed

lemma setup_error_issue:
  "isConnectionIssue (''Failed to simulate score: Request error: '' @ m) = isConnectionIssue m"
proof -
  have "CHR ''N'' \<notin> set ''Failed to simulate score: Request error: ''" by simp
  from isConnectionIssue_skip [OF this, of m] show ?thesis by simp
qed


section \<open>The degraded mode of the simulator\<close>

lemma Math_round_of_int [simp]: "Math_round (of_int k) = of_int k"
  by (simp add: Math_round_def)

lemma Math_round_numeral [simp]: "Math_round (numeral k) = numeral k"
  using Math_round_of_int [of "numeral k"] by simp

lemma repayment_adjustment:
  "loan_repayment_status cd = Some 0 \<Longrightarrow>
   scoreAdjustmentOf js cd [(''loan_repayment_status'', 1)] = 40"
  by (simp add: scoreAdjustmentOf_def applyChange_def)

lemma repayment_improved:
  assumes "loan_repayment_status cd = Some 0" and "s \<noteq> 0" and "\<bar>s\<bar> < 2 ^ 52"
  shows "projected_score (simulateScoreLocally js (Some (of_int s)) cd [(''loan_repayment_status'', 1)])
           = of_int (max 300 (min 850 (s + 40)))"
proof -
  have "\<bar>s + 40\<bar> < 2 ^ 53" using assms(3) by simp
  then have "fl (of_int (s + 40)) = of_int (s + 40)" by (rule fl_of_int)
  then have "fl (of_int s + 40) = of_int (s + 40)" by simp
  moreover have "max 300 (min 850 (of_int (s + 40) :: rat)) = of_int (max 300 (min 850 (s + 40)))"
    by (simp add: max_def min_def)
  ultimately show ?thesis
    using assms(2)
    by (simp only: simulateScoreLocally_def Let_def repayment_adjustment [OF assms(1)]
        or_default.simps of_int_eq_0_iff if_False sim_result.simps Math_round_of_int)
qed


lemma repayment_score_change:
  assumes "loan_repayment_status cd = Some 0"
  shows "score_change (simulateScoreLocally js cs cd [(''loan_repayment_status'', 1)]) = 40"
  using assms by (simp add: simulateScoreLocally_def repayment_adjustment)

lemma handleSimulate_fallback:
  assumes "hypotheticalChanges st \<noteq> []"
    and "tryBlock js post (prepareDataForBackend cd) (prepareChanges (hypotheticalChanges st))
           = Inl message"
    and "\<not> isConnectionIssue message"
  shows "fst (handleSimulate js post (Some cd) cs st) =
     (let localResult = simulateScoreLocally js cs cd (hypotheticalChanges st)
      in st\<lparr>loading := False, error := None,
            projectedScore := Some (projected_score localResult),
            scoreChange := score_change localResult,
            explanationText := fallbackMarker @ explanation localResult,
            chartData := journey cs (projected_score localResult)\<rparr>)"
  using assms by (simp add: handleSimulate_def Let_def)

lemma handleSimulate_connection_issue:
  assumes "hypotheticalChanges st \<noteq> []"
    and "tryBlock js post (prepareDataForBackend cd) (prepareChanges (hypotheticalChanges st))
           = Inl message"
    and "isConnectionIssue message"
  shows "fst (handleSimulate js post (Some cd) cs st) =
     st\<lparr>loading := False, error := Some backendNotResponding\<rparr>"
  using assms by (simp add: handleSimulate_def Let_def)

lemma handleSimulate_response:
  assumes "hypotheticalChanges st \<noteq> []"
    and "tryBlock js post (prepareDataForBackend cd) (prepareChanges (hypotheticalChanges st))
           = Inr result"
  shows "fst (handleSimulate js post (Some cd) cs st) =
     st\<lparr>loading := False, error := None,
        projectedScore := Some (projected_score result),
        scoreChange := score_change result,
        explanationText := explanation result,
        chartData := journey cs (projected_score result)\<rparr>"
  using assms by (simp add: handleSimulate_def Let_def)





text \<open>
  Claim C2, as stated, fails: when the backend does not respond, the handler reports
  "Backend server not responding" and computes no projection.
\<close>

theorem unreachable_backend_counterexample:
  "error (fst (handleSimulate sampleEngine unreachableBackend (Some lateRepayer) (Some 650) repaymentEdited)) =
     Some ''Backend server not responding. Please ensure the backend server is running on http://localhost:8000''
   \<and> projectedScore (fst (handleSimulate sampleEngine unreachableBackend (Some lateRepayer) (Some 650) repaymentEdited)) = None"
proof -
  have ne: "hypotheticalChanges repaymentEdited \<noteq> []"
    by (simp add: repaymentEdited_def initialState_def)
  have msg: "tryBlock sampleEngine unreachableBackend (prepareDataForBackend lateRepayer)
      (prepareChanges (hypotheticalChanges repaymentEdited)) =
      Inl ''Failed to simulate score: No response from server. Please check your connection.''"
    by (rule tryBlock_outcome(2)) (simp add: unreachableBackend_def)
  show ?thesis
    by (simp add: handleSimulate_connection_issue [OF ne msg no_response_issue])
       (simp add: repaymentEdited_def initialState_def backendNotResponding_def)
qed

text \<open>
  Claim C2, amended. The Simulator falls back on the heuristic only when the request
  fails otherwise than by a connection issue. If the backend does not respond, the caller
  gets the error "Backend server not responding" and the projected score stays as it was.
  If the backend answers with an error status, or the request cannot be set up, and the
  text of the error mentions neither "No response from server" nor "Network Error", the
  local heuristic supplies the projected score and the score change and no error is set;
  if the text mentions one of them, the caller gets the same error as without a response.
  If the backend answers, its projection is shown; if it answers with an empty body,
  reading the result throws, and the message of that error is treated in the same way.
\<close>

theorem fallback_unless_connection_issue:
  assumes "hypotheticalChanges st \<noteq> []"
  shows "case post (requestOf cd (hypotheticalChanges st)) of
      NoResponse \<Rightarrow>
        error (fst (handleSimulate js post (Some cd) cs st)) = Some backendNotResponding
        \<and> projectedScore (fst (handleSimulate js post (Some cd) cs st)) = projectedScore st
    | ErrorResponse status detail \<Rightarrow>
        if isConnectionIssue (detail_or_default detail)
        then error (fst (handleSimulate js post (Some cd) cs st)) = Some backendNotResponding
             \<and> projectedScore (fst (handleSimulate js post (Some cd) cs st)) = projectedScore st
        else error (fst (handleSimulate js post (Some cd) cs st)) = None
             \<and> projectedScore (fst (handleSimulate js post (Some cd) cs st)) =
                 Some (projected_score (simulateScoreLocally js cs cd (hypotheticalChanges st)))
             \<and> scoreChange (fst (handleSimulate js post (Some cd) cs st)) =
                 score_change (simulateScoreLocally js cs cd (hypotheticalChanges st))
    | SetupError m \<Rightarrow>
        if isConnectionIssue m
        then error (fst (handleSimulate js post (Some cd) cs st)) = Some backendNotResponding
             \<and> projectedScore (fst (handleSimulate js post (Some cd) cs st)) = projectedScore st
        else error (fst (handleSimulate js post (Some cd) cs st)) = None
             \<and> projectedScore (fst (handleSimulate js post (Some cd) cs st)) =
                 Some (projected_score (simulateScoreLocally js cs cd (hypotheticalChanges st)))
             \<and> scoreChange (fst (handleSimulate js post (Some cd) cs st)) =
                 score_change (simulateScoreLocally js cs cd (hypotheticalChanges st))
    | Response (Some r) \<Rightarrow>
        error (fst (handleSimulate js post (Some cd) cs st)) = None
        \<and> projectedScore (fst (handleSimulate js post (Some cd) cs st)) = Some (projected_score r)
        \<and> scoreChange (fst (handleSimulate js post (Some cd) cs st)) = score_change r
    | Response None \<Rightarrow>
        if isConnectionIssue (nullReadMessage js)
        then error (fst (handleSimulate js post (Some cd) cs st)) = Some backendNotResponding
             \<and> projectedScore (fst (handleSimulate js post (Some cd) cs st)) = projectedScore st
        else error (fst (handleSimulate js post (Some cd) cs st)) = None
             \<and> projectedScore (fst (handleSimulate js post (Some cd) cs st)) =
                 Some (projected_score (simulateScoreLocally js cs cd (hypotheticalChanges st)))
             \<and> scoreChange (fst (handleSimulate js post (Some cd) cs st)) =
                 score_change (simulateScoreLocally js cs cd (hypotheticalChanges st))"
proof (cases "post (requestOf cd (hypotheticalChanges st))")
  case (Response body)
  show ?thesis
  proof (cases body)
    case (Some r)
    with Response have "tryBlock js post (prepareDataForBackend cd) (prepareChanges (hypotheticalChanges st)) = Inr r"
      by (intro tryBlock_outcome(4)) (simp add: requestOf_def)
    from handleSimulate_response [OF assms this] Response Some show ?thesis by simp
  next
    case None
    with Response have msg: "tryBlock js post (prepareDataForBackend cd) (prepareChanges (hypotheticalChanges st)) =
        Inl (nullReadMessage js)"
      by (intro tryBlock_outcome(5)) (simp add: requestOf_def)
    show ?thesis
    proof (cases "isConnectionIssue (nullReadMessage js)")
      case True
      from handleSimulate_connection_issue [OF assms msg True] Response None True
      show ?thesis by simp
    next
      case False
      from handleSimulate_fallback [OF assms msg False] Response None False
      show ?thesis by (simp add: Let_def)
    qed
  qed
next
  case (ErrorResponse status detail)
  then have msg: "tryBlock js post (prepareDataForBackend cd) (prepareChanges (hypotheticalChanges st)) =
      Inl (''Failed to simulate score: '' @ show_nat status @ '': '' @ detail_or_default detail)"
    by (intro tryBlock_outcome(1)) (simp add: requestOf_def)
  show ?thesis
  proof (cases "isConnectionIssue (detail_or_default detail)")
    case True
    then have "isConnectionIssue
        (''Failed to simulate score: '' @ show_nat status @ '': '' @ detail_or_default detail)"
      using error_response_issue [of status "detail_or_default detail"] by blast
    from handleSimulate_connection_issue [OF assms msg this] ErrorResponse True
    show ?thesis by simp
  next
    case False
    then have "\<not> isConnectionIssue
        (''Failed to simulate score: '' @ show_nat status @ '': '' @ detail_or_default detail)"
      using error_response_issue [of status "detail_or_default detail"] by blast
    from handleSimulate_fallback [OF assms msg this] ErrorResponse False
    show ?thesis by (simp add: Let_def)
  qed
next
  case NoResponse
  then have msg: "tryBlock js post (prepareDataForBackend cd) (prepareChanges (hypotheticalChanges st)) =
      Inl ''Failed to simulate score: No response from server. Please check your connection.''"
    by (intro tryBlock_outcome(2)) (simp add: requestOf_def)
  from handleSimulate_connection_issue [OF assms msg no_response_issue] NoResponse
  show ?thesis by simp
next
  case (SetupError m)
  then have msg: "tryBlock js post (prepareDataForBackend cd) (prepareChanges (hypotheticalChanges st)) =
      Inl (''Failed to simulate score: Request error: '' @ m)"
    by (intro tryBlock_outcome(3)) (simp add: requestOf_def)
  show ?thesis
  proof (cases "isConnectionIssue m")
    case True
    then have "isConnectionIssue (''Failed to simulate score: Request error: '' @ m)"
      using setup_error_issue [of m] by blast
    from handleSimulate_connection_issue [OF assms msg this] SetupError True
    show ?thesis by simp
  next
    case False
    then have "\<not> isConnectionIssue (''Failed to simulate score: Request error: '' @ m)"
      using setup_error_issue [of m] by blast
    from handleSimulate_fallback [OF assms msg this] SetupError False
    show ?thesis by (simp add: Let_def)
  qed
qed

theorem fallback_unless_connection_issue_witness:
  "projectedScore (fst (handleSimulate sampleEngine unavailableBackend (Some lateRepayer) (Some 650) repaymentEdited)) =
     Some (projected_score (simulateScoreLocally sampleEngine (Some 650) lateRepayer [(''loan_repayment_status'', 1)]))
   \<and> error (fst (handleSimulate sampleEngine unavailableBackend (Some lateRepayer) (Some 650) repaymentEdited)) = None"
proof -
  have h: "hypotheticalChanges repaymentEdited = [(''loan_repayment_status'', 1)]"
    by (simp add: repaymentEdited_def initialState_def)
  have ne: "hypotheticalChanges repaymentEdited \<noteq> []"
    by (simp add: h)
  have a: "\<not> isConnectionIssue (detail_or_default (Some ''Model not loaded''))"
    by (simp add: isConnectionIssue_def)
  show ?thesis
    using fallback_unless_connection_issue
      [OF ne, where post = unavailableBackend and cd = lateRepayer and js = sampleEngine and cs = "Some 650"] a
    by (simp add: h unavailableBackend_def)
qed

section \<open>An empty change set\<close>

text \<open>
  Claim C9. Simulating with no hypothetical change is a caller error: whatever the
  beneficiary, the current score and the backend, the handler sets the error
  "Please make at least one change to simulate", leaves the rest of the state (and so the
  projected score) as it was, and sends no request; neither the backend nor the local
  heuristic contributes to the result.
\<close>

theorem empty_change_set_is_caller_error:
  assumes "hypotheticalChanges st = []"
  shows "handleSimulate js post currentData currentScore st =
           (st\<lparr>error := Some ''Please make at least one change to simulate''\<rparr>, [])"
  using assms by (simp add: handleSimulate_def split: option.splits)

theorem empty_change_set_is_caller_error_witness:
  "handleSimulate sampleEngine unavailableBackend (Some lateRepayer) (Some 650) initialState =
     (initialState\<lparr>error := Some ''Please make at least one change to simulate''\<rparr>, [])"
proof -
  have h: "hypotheticalChanges initialState = []" by (simp add: initialState_def)
  show ?thesis
    using empty_change_set_is_caller_error [OF h] by simp
qed

section \<open>The score change of the local simulation\<close>

lemma fl_Ints: "x \<in> \<int> \<Longrightarrow> fl x \<in> \<int>"
  by (auto elim!: Ints_cases simp add: fl_of_int_integral)

lemma if_Ints: "(c \<Longrightarrow> x \<in> \<int>) \<Longrightarrow> (\<not> c \<Longrightarrow> y \<in> \<int>) \<Longrightarrow> (if c then x else y) \<in> \<int>"
  by simp

lemma applyChange_integral:
  assumes "fst entry \<noteq> ''monthly_income''" and "acc \<in> \<int>"
  shows "applyChange js cd acc entry \<in> \<int>"
proof -
  have no: "(fst entry = ''monthly_income'') = False" using assms(1) by simp
  show ?thesis
    unfolding applyChange_def Let_def no if_False
    by (intro if_Ints fl_Ints Ints_add Ints_diff Ints_numeral assms(2))
qed

lemma foldl_applyChange_integral:
  "''monthly_income'' \<notin> fst ` set chs \<Longrightarrow> acc \<in> \<int> \<Longrightarrow>
   foldl (applyChange js cd) acc chs \<in> \<int>"
proof (induction chs arbitrary: acc)
  case Nil
  then show ?case by simp
next
  case (Cons entry chs)
  from Cons.prems have "fst entry \<noteq> ''monthly_income''" by auto
  then have "applyChange js cd acc entry \<in> \<int>"
    using Cons.prems(2) by (rule applyChange_integral)
  moreover from Cons.prems have "''monthly_income'' \<notin> fst ` set chs" by auto
  ultimately show ?case using Cons.IH by simp
qed

text \<open>Without a change of income the adjustment is a whole number.\<close>

lemma adjustment_integral:
  "''monthly_income'' \<notin> fst ` set chs \<Longrightarrow> scoreAdjustmentOf js cd chs \<in> \<int>"
  unfolding scoreAdjustmentOf_def by (rule foldl_applyChange_integral) simp_all

text \<open>
  Claim C3, as stated, fails, in four ways. With a current score of 840 the improvement of
  the repayment status projects 850 (the cap) while the score change is 40, not 10. With
  a current score of 0 the baseline is 650: the projection is 690, the score change 40.
  With a current score of 650.5 the projection is 691, the score change 40. With a
  current score of 650 and an income going from 4750.000000000001 to 5000 the score
  change is 0, the adjustment being just below a half, while the projection is 651.
\<close>

theorem score_change_counterexample:
  "score_change (simulateScoreLocally sampleEngine (Some 840) lateRepayer [(''loan_repayment_status'', 1)]) \<noteq>
     projected_score (simulateScoreLocally sampleEngine (Some 840) lateRepayer [(''loan_repayment_status'', 1)]) - 840
   \<and> score_change (simulateScoreLocally sampleEngine (Some 0) lateRepayer [(''loan_repayment_status'', 1)]) \<noteq>
     projected_score (simulateScoreLocally sampleEngine (Some 0) lateRepayer [(''loan_repayment_status'', 1)]) - 0
   \<and> score_change (simulateScoreLocally sampleEngine (Some (1301 / 2)) lateRepayer [(''loan_repayment_status'', 1)]) \<noteq>
     projected_score (simulateScoreLocally sampleEngine (Some (1301 / 2)) lateRepayer [(''loan_repayment_status'', 1)]) - 1301 / 2
   \<and> score_change (simulateScoreLocally sampleEngine (Some 650) fractionalIncome [(''monthly_income'', 5000)]) \<noteq>
     projected_score (simulateScoreLocally sampleEngine (Some 650) fractionalIncome [(''monthly_income'', 5000)]) - 650"
proof -
  have a: "projected_score (simulateScoreLocally sampleEngine (Some 840) lateRepayer [(''loan_repayment_status'', 1)]) = 850"
    "score_change (simulateScoreLocally sampleEngine (Some 840) lateRepayer [(''loan_repayment_status'', 1)]) = 40"
    by code_simp+
  have b: "projected_score (simulateScoreLocally sampleEngine (Some 0) lateRepayer [(''loan_repayment_status'', 1)]) = 690"
    "score_change (simulateScoreLocally sampleEngine (Some 0) lateRepayer [(''loan_repayment_status'', 1)]) = 40"
    by code_simp+
  have c: "projected_score (simulateScoreLocally sampleEngine (Some (1301 / 2)) lateRepayer [(''loan_repayment_status'', 1)]) = 691"
    "score_change (simulateScoreLocally sampleEngine (Some (1301 / 2)) lateRepayer [(''loan_repayment_status'', 1)]) = 40"
    by code_simp+
  have d: "projected_score (simulateScoreLocally sampleEngine (Some 650) fractionalIncome [(''monthly_income'', 5000)]) = 651"
    "score_change (simulateScoreLocally sampleEngine (Some 650) fractionalIncome [(''monthly_income'', 5000)]) = 0"
    by code_simp+
  show ?thesis by (simp add: a b c d)
qed

text \<open>
  Claim C3, amended. For a current score that is a whole number other than zero, and
  changes that leave the income alone and whose summed adjustment keeps the score within
  300 and 850, the score change returned by the local simulation equals the projected
  score minus the current score.
\<close>

theorem score_change_is_delta_when_unclamped:
  assumes "s \<noteq> 0"
    and "''monthly_income'' \<notin> fst ` set chs"
    and "300 \<le> of_int s + scoreAdjustmentOf js cd chs"
    and "of_int s + scoreAdjustmentOf js cd chs \<le> 850"
  shows "score_change (simulateScoreLocally js (Some (of_int s)) cd chs) =
         projected_score (simulateScoreLocally js (Some (of_int s)) cd chs) - of_int s"
proof -
  from adjustment_integral [OF assms(2), of js cd]
  obtain a where a: "scoreAdjustmentOf js cd chs = of_int a"
    by (rule Ints_cases)
  from assms(3,4) have lo: "300 \<le> s + a" and hi: "s + a \<le> 850"
    unfolding a by linarith+
  then have "\<bar>s + a\<bar> < 2 ^ 53" by simp
  then have "fl (of_int (s + a)) = of_int (s + a)" by (rule fl_of_int)
  then have sum: "fl (of_int s + of_int a) = of_int (s + a)" by simp
  have clamp: "max 300 (min 850 (of_int (s + a) :: rat)) = of_int (s + a)"
    using lo hi by (simp add: max_def min_def)
  have "projected_score (simulateScoreLocally js (Some (of_int s)) cd chs) = of_int (s + a)"
    using assms(1)
    by (simp only: simulateScoreLocally_def Let_def a or_default.simps of_int_eq_0_iff if_False
        sim_result.simps sum clamp Math_round_of_int)
  moreover have "score_change (simulateScoreLocally js (Some (of_int s)) cd chs) = of_int a"
    by (simp only: simulateScoreLocally_def Let_def a sim_result.simps Math_round_of_int)
  ultimately show ?thesis by simp
qed

theorem score_change_is_delta_when_unclamped_witness:
  "score_change (simulateScoreLocally sampleEngine (Some (of_int 650)) lateRepayer [(''loan_repayment_status'', 1)]) =
   projected_score (simulateScoreLocally sampleEngine (Some (of_int 650)) lateRepayer [(''loan_repayment_status'', 1)]) - of_int 650
   \<and> score_change (simulateScoreLocally sampleEngine (Some (of_int 650)) lateRepayer [(''loan_repayment_status'', 1)]) = 40"
proof -
  note h = lateRepayer_fields(1)
  have a: "(650::int) \<noteq> 0" by simp
  have n: "''monthly_income'' \<notin> fst ` set [(''loan_repayment_status'', 1::rat)]" by simp
  have b: "300 \<le> of_int 650 + scoreAdjustmentOf sampleEngine lateRepayer [(''loan_repayment_status'', 1)]"
    by (simp add: repayment_adjustment [OF h])
  have c: "of_int 650 + scoreAdjustmentOf sampleEngine lateRepayer [(''loan_repayment_status'', 1)] \<le> 850"
    by (simp add: repayment_adjustment [OF h])
  show ?thesis
    using score_change_is_delta_when_unclamped [OF a n b c] repayment_score_change [OF h, of sampleEngine "Some 650"]
    by simp
qed


section \<open>Improving the repayment status\<close>

text \<open>
  Claim C4 at a current score of 900: the improvement of the repayment status projects
  850, below the current score, while the same result reports a score change of 40 and
  an explanation that speaks of an increase of 40 points.
\<close>

theorem repayment_improvement_projected_below_baseline:
  "projected_score (simulateScoreLocally sampleEngine (Some 900) lateRepayer [(''loan_repayment_status'', 1)]) = 850
   \<and> score_change (simulateScoreLocally sampleEngine (Some 900) lateRepayer [(''loan_repayment_status'', 1)]) = 40
   \<and> explanation (simulateScoreLocally sampleEngine (Some 900) lateRepayer [(''loan_repayment_status'', 1)]) =
       ''Local simulation based on your changes: These improvements could increase your score by approximately 40 points. This is a simplified calculation. For more accurate projections, ensure the backend server is running.''
   \<and> projected_score (simulateScoreLocally sampleEngine (Some 900) lateRepayer [(''loan_repayment_status'', 1)]) < 900"
proof -
  have a: "projected_score (simulateScoreLocally sampleEngine (Some 900) lateRepayer [(''loan_repayment_status'', 1)]) = 850"
    "score_change (simulateScoreLocally sampleEngine (Some 900) lateRepayer [(''loan_repayment_status'', 1)]) = 40"
    by code_simp+
  have b: "explanation (simulateScoreLocally sampleEngine (Some 900) lateRepayer [(''loan_repayment_status'', 1)]) =
       ''Local simulation based on your changes: These improvements could increase your score by approximately 40 points. This is a simplified calculation. For more accurate projections, ensure the backend server is running.''"
    by code_simp
  show ?thesis by (simp only: a b) simp
qed

text \<open>Up to the cap the improvement never lowers a whole score: the defect is the cap alone.\<close>

lemma repayment_improvement_monotone_up_to_cap:
  assumes "loan_repayment_status cd = Some 0" and "s \<le> 850"
  shows "of_int s \<le> projected_score (simulateScoreLocally js (Some (of_int s)) cd [(''loan_repayment_status'', 1)])"
proof (cases "s \<le> 300")
  case True
  then have "(of_int s :: rat) \<le> 300" by simp
  with projected_at_least_300 [of js "Some (of_int s)" cd "[(''loan_repayment_status'', 1)]"]
  show ?thesis by linarith
next
  case False
  then have s0: "s \<noteq> 0" and sb: "\<bar>s\<bar> < 2 ^ 52" using assms(2) by simp_all
  have "s \<le> max 300 (min 850 (s + 40))" using assms(2) by simp
  then have "(of_int s :: rat) \<le> of_int (max 300 (min 850 (s + 40)))" by (simp only: of_int_le_iff)
  then show ?thesis by (simp only: repayment_improved [OF assms(1) s0 sb])
qed

section \<open>The risk and need matrix\<close>

lemma currentCategory_valid:
  assumes "r \<in> {''Low Risk'', ''Medium Risk'', ''High Risk''}"
    and "n \<in> {''Low Need'', ''High Need''}"
  shows "\<exists>cat. currentCategory r n = Some cat \<and> cat \<in> set matrixCategories
           \<and> risk cat = r \<and> need cat = n"
  using assms by (auto simp add: currentCategory_def matrixCategories_def)

lemma parse_valid:
  assumes "r \<in> {''Low Risk'', ''Medium Risk'', ''High Risk''}"
    and "n \<in> {''Low Need'', ''High Need''}"
  shows "parseRiskCategory (Some (r @ '' - '' @ n)) = (r, n)"
  using assms by (auto simp add: parseRiskCategory_def part_or_unknown_def)

text \<open>
  Claim C5. For every risk among Low Risk, Medium Risk and High Risk and every need among
  Low Need and High Need, the matrix has a cell with that risk and that need, it is the
  current category, and the recommendation shown for the category string
  "risk - need" is the fixed recommendation of that cell, one of the five labels of the
  table; the score-based fallback texts and "Unknown" are never reached.
\<close>

theorem matrix_complete:
  assumes "r \<in> {''Low Risk'', ''Medium Risk'', ''High Risk''}"
    and "n \<in> {''Low Need'', ''High Need''}"
  shows "\<exists>cat. cat \<in> set matrixCategories \<and> risk cat = r \<and> need cat = n
           \<and> currentCategory r n = Some cat
           \<and> getRecommendation (Some (r @ '' - '' @ n)) sc = recommendation cat
           \<and> recommendation cat \<in> {''Maintain current financial habits'', ''Ideal for loan approval'',
                 ''Monitor financial behavior'', ''Conditional approval with guidance'',
                 ''Requires financial guidance''}"
proof -
  from currentCategory_valid [OF assms] obtain cat where
    c: "currentCategory r n = Some cat" "cat \<in> set matrixCategories" "risk cat = r" "need cat = n"
    by blast
  have "getRecommendation (Some (r @ '' - '' @ n)) sc = recommendation cat"
    using parse_valid [OF assms] c(1) by (simp add: getRecommendation_def)
  moreover have "recommendation cat \<in> {''Maintain current financial habits'', ''Ideal for loan approval'',
                 ''Monitor financial behavior'', ''Conditional approval with guidance'',
                 ''Requires financial guidance''}"
    using c(2) by (auto simp add: matrixCategories_def)
  ultimately show ?thesis using c by blast
qed

theorem matrix_complete_witness:
  "getRecommendation (Some ''High Risk - Low Need'') (Some 720) = ''Monitor financial behavior''"
proof -
  have a: "''High Risk'' \<in> {''Low Risk'', ''Medium Risk'', ''High Risk''}" by simp
  have b: "''Low Need'' \<in> {''Low Need'', ''High Need''}" by simp
  from matrix_complete [OF a b, of "Some 720"] obtain cat where
    c: "cat \<in> set matrixCategories" "risk cat = ''High Risk''" "need cat = ''Low Need''"
       "getRecommendation (Some (''High Risk'' @ '' - '' @ ''Low Need'')) (Some 720) = recommendation cat"
    by blast
  from c(1,2,3) have "recommendation cat = ''Monitor financial behavior''"
    by (auto simp add: matrixCategories_def)
  with c(4) show ?thesis by simp
qed

section \<open>Encoding the employment type\<close>

lemma mapping_or_zero_unknown:
  assumes "l \<notin> fst ` set mapping" and "l \<notin> set object_prototype_keys"
  shows "mapping_or_zero l = Enc 0"
proof -
  have "map_of mapping l = None" using assms(1) by (simp add: map_of_eq_None_iff)
  then show ?thesis using assms(2) by (simp add: mapping_or_zero_def)
qed

lemma unemployed_encoding: "mapping_or_zero ''unemployed'' = Enc 0"
  by (simp add: mapping_or_zero_def mapping_def)

text \<open>
  Claim C6, as stated, fails: nothing surfaces the substitution. For the unknown label
  "freelancer" the encoding, the request sent and the whole outcome of a simulation are
  those of the label "unemployed", and no error or warning is set.
\<close>

theorem unknown_label_no_warning_counterexample:
  "convertEmploymentType (Str ''freelancer'') = convertEmploymentType (Str ''unemployed'')
   \<and> handleSimulate sampleEngine answeringBackend (Some (lateRepayer\<lparr>employment_type := Str ''freelancer''\<rparr>))
        (Some 650) repaymentEdited =
      handleSimulate sampleEngine answeringBackend (Some (lateRepayer\<lparr>employment_type := Str ''unemployed''\<rparr>))
        (Some 650) repaymentEdited
   \<and> error (fst (handleSimulate sampleEngine answeringBackend
        (Some (lateRepayer\<lparr>employment_type := Str ''freelancer''\<rparr>)) (Some 650) repaymentEdited)) = None"
proof -
  have a: "mapping_or_zero ''freelancer'' = Enc 0"
    by (simp add: mapping_or_zero_def mapping_def object_prototype_keys_def)
  have ne: "hypotheticalChanges repaymentEdited \<noteq> []"
    by (simp add: repaymentEdited_def initialState_def)
  show ?thesis
    using ne
    by (simp add: a unemployed_encoding handleSimulate_def prepareDataForBackend_def
        tryBlock_def simulateScore_def answeringBackend_def Let_def)
qed

text \<open>
  Claim C6, amended. A label that is neither a key of the lookup table nor the name of a
  member every object inherits is encoded as 0, without failing and without any warning:
  the encoding and the data prepared for the backend are exactly those of the label
  "unemployed".
\<close>

theorem unknown_label_defaults_silently:
  assumes "l \<notin> fst ` set mapping" and "l \<notin> set object_prototype_keys"
  shows "convertEmploymentType (Str l) = Enc 0
     \<and> convertEmploymentType (Str l) = convertEmploymentType (Str ''unemployed'')
     \<and> prepareDataForBackend (cd\<lparr>employment_type := Str l\<rparr>) =
         prepareDataForBackend (cd\<lparr>employment_type := Str ''unemployed''\<rparr>)"
  using mapping_or_zero_unknown [OF assms]
  by (simp add: unemployed_encoding prepareDataForBackend_def)

theorem unknown_label_defaults_silently_witness:
  "convertEmploymentType (Str ''freelancer'') = Enc 0
   \<and> prepareDataForBackend (lateRepayer\<lparr>employment_type := Str ''freelancer''\<rparr>) =
       prepareDataForBackend (lateRepayer\<lparr>employment_type := Str ''unemployed''\<rparr>)"
proof -
  have a: "''freelancer'' \<notin> fst ` set mapping" by (simp add: mapping_def)
  have b: "''freelancer'' \<notin> set object_prototype_keys" by (simp add: object_prototype_keys_def)
  show ?thesis
    using unknown_label_defaults_silently [OF a b, of lateRepayer] by simp
qed

text \<open>
  Claim C7, as stated, fails: the label "business_owner" is encoded as 3, and a numeric
  input such as 7 is returned as it is.
\<close>

theorem encoding_domain_counterexample:
  "convertEmploymentType (Str ''business_owner'') = Enc 3 \<and> convertEmploymentType (Num 7) = Enc 7"
  by (simp add: mapping_or_zero_def mapping_def)

lemma mapping_or_zero_range:
  assumes "l \<notin> set object_prototype_keys"
  shows "mapping_or_zero l \<in> {Enc 0, Enc 1, Enc 2, Enc 3}"
  using assms by (simp add: mapping_or_zero_def mapping_def)

text \<open>
  Claim C7, amended. A textual label that is not the name of an inherited object member is
  encoded in {0, 1, 2, 3}, and the three labels unemployed, self_employed and salaried in
  {0, 1, 2}; a numeric input is returned unchanged, whatever its value; a missing
  employment type is encoded as 0.
\<close>

theorem encoded_employment_domain:
  assumes "l \<notin> set object_prototype_keys"
  shows "convertEmploymentType (Str l) \<in> {Enc 0, Enc 1, Enc 2, Enc 3}
     \<and> (l \<in> {''unemployed'', ''self_employed'', ''salaried''} \<longrightarrow>
          convertEmploymentType (Str l) \<in> {Enc 0, Enc 1, Enc 2})
     \<and> convertEmploymentType (Num k) = Enc k
     \<and> convertEmploymentType Undefined = Enc 0
     \<and> convertEmploymentType Null = Enc 0"
proof (intro conjI impI)
  show "convertEmploymentType (Str l) \<in> {Enc 0, Enc 1, Enc 2, Enc 3}"
    using mapping_or_zero_range [OF assms] by simp
  show "convertEmploymentType (Str l) \<in> {Enc 0, Enc 1, Enc 2}"
    if "l \<in> {''unemployed'', ''self_employed'', ''salaried''}"
    using that by (auto simp add: mapping_or_zero_def mapping_def)
  show "convertEmploymentType (Num k) = Enc k" by simp
  show "convertEmploymentType Undefined = Enc 0"
    by (simp add: mapping_or_zero_def mapping_def object_prototype_keys_def)
  show "convertEmploymentType Null = Enc 0"
    by (simp add: mapping_or_zero_def mapping_def object_prototype_keys_def)
qed

theorem encoded_employment_domain_witness:
  "convertEmploymentType (Str ''salaried'') \<in> {Enc 0, Enc 1, Enc 2}
   \<and> convertEmploymentType (Str ''salaried'') = Enc 2"
proof -
  have a: "''salaried'' \<notin> set object_prototype_keys" by (simp add: object_prototype_keys_def)
  have b: "''salaried'' \<in> {''unemployed'', ''self_employed'', ''salaried''}" by simp
  have c: "convertEmploymentType (Str ''salaried'') = Enc 2"
    by (simp add: mapping_or_zero_def mapping_def)
  show ?thesis
    using encoded_employment_domain [OF a, of 0] b c by simp
qed

section \<open>The quick suggestions\<close>

text \<open>
  Claim C8 on a beneficiary for whom all four suggestions apply: the three returned are
  those for repayment, bills and recharge, in the order they were pushed; the suggestion
  for employment, of impact High, is dropped while the one for recharge, of impact Low,
  is kept.
\<close>

theorem suggestions_keep_low_drop_high:
  "getImprovementSuggestions (Some allHurting) = [suggestLoan, suggestBills, suggestRecharge]
   \<and> suggestEmployment \<notin> set (getImprovementSuggestions (Some allHurting))
   \<and> impact suggestRecharge = ''Low'' \<and> impact suggestEmployment = ''High''
   \<and> impact_rank (impact suggestRecharge) < impact_rank (impact suggestEmployment)"
  by (simp add: getImprovementSuggestions_def allHurting_def no_attributes_def
      suggestLoan_def suggestBills_def suggestRecharge_def suggestEmployment_def impact_rank_def)

text \<open>What does hold of the suggestions: at most three, each for an attribute at an
  unfavourable value, and each proposing a higher value.\<close>

lemma suggestions_capped: "length (getImprovementSuggestions cd) \<le> 3"
  by (simp add: getImprovementSuggestions_def Let_def split: option.splits)

lemma suggestions_from_unfavourable:
  assumes "s \<in> set (getImprovementSuggestions (Some cd))"
  shows "(s = suggestLoan \<and> nullish (loan_repayment_status cd) 0 = 0)
       \<or> (s = suggestBills \<and> nullish (electricity_bill_paid_on_time cd) 0 = 0)
       \<or> (s = suggestRecharge \<and> nullish (mobile_recharge_frequency cd) 1 < 3)
       \<or> (s = suggestEmployment \<and> employment_is_zero (employment_type cd))"
proof -
  from assms have "s \<in> set
      ((if nullish (loan_repayment_status cd) 0 = 0 then [suggestLoan] else []) @
       (if nullish (electricity_bill_paid_on_time cd) 0 = 0 then [suggestBills] else []) @
       (if nullish (mobile_recharge_frequency cd) 1 < 3 then [suggestRecharge] else []) @
       (if employment_is_zero (employment_type cd) then [suggestEmployment] else []))"
    by (auto simp add: getImprovementSuggestions_def Let_def dest: in_set_takeD)
  then show ?thesis by (auto split: if_splits)
qed

lemma suggestions_raise_the_value:
  "new_value suggestLoan > 0" "new_value suggestBills > 0"
  "x < 3 \<Longrightarrow> x < new_value suggestRecharge" "new_value suggestEmployment > 0"
  by (simp_all add: suggestLoan_def suggestBills_def suggestRecharge_def suggestEmployment_def)


end
